theory Spec2Isabelle
  imports Complex_Main
begin

section \<open>Python values\<close>

text \<open>
  The library handles decoded JSON and raw response bodies, so its data is dynamically
  typed. A value is one of the results of \<^verbatim>\<open>json.loads\<close> (\<^verbatim>\<open>None\<close>, a bool, an int, a
  float, a str, a list, a dict) or a \<^verbatim>\<open>bytes\<close> object. Python's ints are unbounded
  (\<open>int\<close>). A float is represented by the rational it denotes: rounding, infinities and
  NaN are outside this model, and so is the \<^verbatim>\<open>OverflowError\<close> of converting an int
  beyond the range of a double. A dict is an association list in insertion order; the
  keys the code uses are str literals and the int literals 0 and 1.
\<close>

datatype pykey = KStr string | KInt int

datatype pyval =
    PNone
  | PBool bool
  | PInt int
  | PFloat rat
  | PStr string
  | PBytes string
  | PList "pyval list"
  | PDict "(pykey \<times> pyval) list"

text \<open>The exceptions that the modelled code can raise or let through.\<close>

datatype error =
    AuthFailure string
  | AttributeError string
  | TypeError
  | KeyError
  | IndexError
  | ValueError
  | RecursionError
  | ZeroDivisionError
  | URLError
  | TimeoutError

subsection \<open>Truth value, numbers, arithmetic\<close>

text \<open>\<^verbatim>\<open>bool(x)\<close>: \<^verbatim>\<open>None\<close>, \<^verbatim>\<open>False\<close>, zero and every empty container are falsy.\<close>

fun truthy :: "pyval \<Rightarrow> bool" where
  "truthy PNone = False"
| "truthy (PBool b) = b"
| "truthy (PInt i) = (i \<noteq> 0)"
| "truthy (PFloat r) = (r \<noteq> 0)"
| "truthy (PStr s) = (s \<noteq> [])"
| "truthy (PBytes s) = (s \<noteq> [])"
| "truthy (PList xs) = (xs \<noteq> [])"
| "truthy (PDict kvs) = (kvs \<noteq> [])"


fun intlike :: "pyval \<Rightarrow> int option" where
  "intlike (PInt i) = Some i"
| "intlike (PBool b) = Some (if b then 1 else 0)"
| "intlike v = None"

fun num_value :: "pyval \<Rightarrow> rat option" where
  "num_value (PInt i) = Some (of_int i)"
| "num_value (PBool b) = Some (if b then 1 else 0)"
| "num_value (PFloat r) = Some r"
| "num_value v = None"

text \<open>\<^verbatim>\<open>a / b\<close>: true division of numbers, always a float.\<close>

definition py_truediv :: "pyval \<Rightarrow> pyval \<Rightarrow> error + pyval" where
  "py_truediv a b =
     (case (num_value a, num_value b) of
        (Some x, Some y) \<Rightarrow> if y = 0 then Inl ZeroDivisionError else Inr (PFloat (x / y))
      | _ \<Rightarrow> Inl TypeError)"

text \<open>\<^verbatim>\<open>seq * n\<close> for a str, bytes or list: \<open>n\<close> copies, none when \<open>n \<le> 0\<close>.\<close>

definition repeat :: "int \<Rightarrow> 'a list \<Rightarrow> 'a list" where
  "repeat n xs = concat (replicate (nat n) xs)"

fun seq_times :: "pyval \<Rightarrow> int \<Rightarrow> pyval option" where
  "seq_times (PStr s) n = Some (PStr (repeat n s))"
| "seq_times (PBytes s) n = Some (PBytes (repeat n s))"
| "seq_times (PList xs) n = Some (PList (repeat n xs))"
| "seq_times v n = None"

text \<open>The sequences that can be repeated: str, bytes and list.\<close>

definition is_sequence :: "pyval \<Rightarrow> bool" where
  "is_sequence v = (seq_times v 1 \<noteq> None)"

text \<open>\<^verbatim>\<open>a * b\<close>: int times int is an int, a float operand makes a float, a sequence times
  an int (either way round) is the repeated sequence, anything else is a
  \<^verbatim>\<open>TypeError\<close>.\<close>

definition py_mul :: "pyval \<Rightarrow> pyval \<Rightarrow> error + pyval" where
  "py_mul a b =
     (case (intlike a, intlike b) of
        (Some x, Some y) \<Rightarrow> Inr (PInt (x * y))
      | (Some x, None) \<Rightarrow>
          (case b of
             PFloat r \<Rightarrow> Inr (PFloat (of_int x * r))
           | _ \<Rightarrow> (case seq_times b x of Some v \<Rightarrow> Inr v | None \<Rightarrow> Inl TypeError))
      | (None, Some y) \<Rightarrow>
          (case a of
             PFloat r \<Rightarrow> Inr (PFloat (r * of_int y))
           | _ \<Rightarrow> (case seq_times a y of Some v \<Rightarrow> Inr v | None \<Rightarrow> Inl TypeError))
      | (None, None) \<Rightarrow>
          (case (a, b) of
             (PFloat r, PFloat q) \<Rightarrow> Inr (PFloat (r * q))
           | _ \<Rightarrow> Inl TypeError))"

text \<open>\<^verbatim>\<open>a <= b\<close> on numbers; ordering a number against anything else raises.\<close>

definition py_le :: "pyval \<Rightarrow> pyval \<Rightarrow> error + bool" where
  "py_le a b =
     (case (num_value a, num_value b) of
        (Some x, Some y) \<Rightarrow> Inr (x \<le> y)
      | _ \<Rightarrow> Inl TypeError)"

section \<open>Cost computation\<close>

text \<open>
  \<^verbatim>\<open>
  def toCost(rate, ammount, unit):
      try:
          if unit == 'W': ammount = ammount/1000
          return ammount * rate
      except:
          return 0
  \<close>
  The bare \<^verbatim>\<open>except\<close> catches every exception of the two arithmetic steps.
\<close>

definition toCost :: "pyval \<Rightarrow> pyval \<Rightarrow> pyval \<Rightarrow> pyval" where
  "toCost rate ammount unit =
     (case (if unit = PStr ''W'' then py_truediv ammount (PInt 1000) else Inr ammount) of
        Inl e \<Rightarrow> PInt 0
      | Inr a \<Rightarrow> (case py_mul a rate of Inl e \<Rightarrow> PInt 0 | Inr v \<Rightarrow> v))"

section \<open>Containers\<close>

text \<open>
  A position in a sequence of length \<open>n\<close>: Python counts a negative index from the end
  and raises \<^verbatim>\<open>IndexError\<close> outside \<open>-n \<le> i < n\<close>.
\<close>

definition py_index :: "nat \<Rightarrow> int \<Rightarrow> nat option" where
  "py_index n i =
     (let j = (if i < 0 then int n + i else i)
      in if 0 \<le> j \<and> j < int n then Some (nat j) else None)"

text \<open>\<^verbatim>\<open>d[k] = v\<close> on a dict: an existing key keeps its place, a new key goes last.\<close>

fun dict_set :: "pykey \<Rightarrow> pyval \<Rightarrow> (pykey \<times> pyval) list \<Rightarrow> (pykey \<times> pyval) list" where
  "dict_set k v [] = [(k, v)]"
| "dict_set k v (p # ps) = (if fst p = k then (k, v) # ps else p # dict_set k v ps)"

text \<open>
  \<^verbatim>\<open>x[k]\<close>. A dict looks the key up (\<^verbatim>\<open>KeyError\<close> when absent); a list, str or bytes
  takes an int position (a str gives a one-character str, bytes give an int) and raises
  \<^verbatim>\<open>TypeError\<close> on a str key; nothing else can be subscripted.
\<close>

fun getitem :: "pyval \<Rightarrow> pykey \<Rightarrow> error + pyval" where
  "getitem (PDict kvs) k = (case map_of kvs k of None \<Rightarrow> Inl KeyError | Some v \<Rightarrow> Inr v)"
| "getitem (PList xs) (KInt i) =
     (case py_index (length xs) i of None \<Rightarrow> Inl IndexError | Some j \<Rightarrow> Inr (xs ! j))"
| "getitem (PStr s) (KInt i) =
     (case py_index (length s) i of None \<Rightarrow> Inl IndexError | Some j \<Rightarrow> Inr (PStr [s ! j]))"
| "getitem (PBytes s) (KInt i) =
     (case py_index (length s) i of None \<Rightarrow> Inl IndexError
      | Some j \<Rightarrow> Inr (PInt (of_char (s ! j))))"
| "getitem v k = Inl TypeError"

text \<open>\<^verbatim>\<open>x[k] = v\<close>: only a dict and a list (at an existing position) can be assigned to.\<close>

fun setitem :: "pyval \<Rightarrow> pykey \<Rightarrow> pyval \<Rightarrow> error + pyval" where
  "setitem (PDict kvs) k v = Inr (PDict (dict_set k v kvs))"
| "setitem (PList xs) (KInt i) v =
     (case py_index (length xs) i of None \<Rightarrow> Inl IndexError | Some j \<Rightarrow> Inr (PList (xs[j := v])))"
| "setitem x k v = Inl TypeError"

text \<open>
  \<^verbatim>\<open>x[k1][k2] = v\<close> and \<^verbatim>\<open>x[k1][k2][k3] = v\<close>: the inner containers are read, the
  innermost one is assigned to in place. With values instead of references the changed
  container is put back where it was read from; the reads having succeeded, putting
  back cannot fail (a str or bytes item cannot be assigned to, so the parent of a
  changed item is a list or a dict).
\<close>

definition setitem2 :: "pyval \<Rightarrow> pykey \<Rightarrow> pykey \<Rightarrow> pyval \<Rightarrow> error + pyval" where
  "setitem2 x k1 k2 v =
     (case getitem x k1 of
        Inl e \<Rightarrow> Inl e
      | Inr y \<Rightarrow> (case setitem y k2 v of Inl e \<Rightarrow> Inl e | Inr y' \<Rightarrow> setitem x k1 y'))"


text \<open>The items a \<^verbatim>\<open>for\<close> loop runs over: a dict gives its keys, a str its characters,
  bytes their ints; \<^verbatim>\<open>None\<close>, a bool and a number cannot be iterated.\<close>

fun key_value :: "pykey \<Rightarrow> pyval" where
  "key_value (KStr s) = PStr s"
| "key_value (KInt i) = PInt i"

fun py_iter :: "pyval \<Rightarrow> error + pyval list" where
  "py_iter (PList xs) = Inr xs"
| "py_iter (PDict kvs) = Inr (map (key_value \<circ> fst) kvs)"
| "py_iter (PStr s) = Inr (map (\<lambda>c. PStr [c]) s)"
| "py_iter (PBytes s) = Inr (map (\<lambda>c. PInt (of_char c)) s)"
| "py_iter v = Inl TypeError"

text \<open>\<^verbatim>\<open>a + b\<close> where \<open>a\<close> is a str: \<open>b\<close> must be a str too.\<close>

fun str_add :: "string \<Rightarrow> pyval \<Rightarrow> error + string" where
  "str_add a (PStr b) = Inr (a @ b)"
| "str_add a v = Inl TypeError"

text \<open>\<^verbatim>\<open>sub in s\<close> on strs: \<open>sub\<close> occurs in \<open>s\<close> as a contiguous run.\<close>

fun contains :: "string \<Rightarrow> string \<Rightarrow> bool" where
  "contains sub [] = (sub = [])"
| "contains sub (c # cs) = (take (length sub) (c # cs) = sub \<or> contains sub cs)"

section \<open>The environment: network, clocks, library functions\<close>

text \<open>
  What \<^verbatim>\<open>urllib.request.urlopen\<close> is called with: the URL, the headers in the order of
  the \<^verbatim>\<open>add_header\<close> calls, and the encoded body (\<open>None\<close> when the call passes no
  data).
\<close>

record request =
  url :: string
  headers :: "(string \<times> pyval) list"
  data :: "string option"

text \<open>A response that was opened: its \<^verbatim>\<open>Content-Type\<close> header, if any, and all the
  bytes that the \<^verbatim>\<open>read\<close> loop collects.\<close>

record response =
  contentType :: "string option"
  content :: string

text \<open>
  \<^verbatim>\<open>urlopen\<close> raises \<^verbatim>\<open>HTTPError(code, reason)\<close> for a response that is not a success,
  raises something else (\<^verbatim>\<open>URLError\<close> when the name does not resolve or the connection
  fails, a timeout), or returns a response.
\<close>

datatype urlopen_result =
    HTTPError int string
  | Raises error
  | Returns response

text \<open>
  The environment is a parameter of every operation. The network and the clocks are
  oracles indexed by the number of earlier calls: \<open>urlopen E k req\<close> is the outcome of
  the request \<open>req\<close> when \<open>k\<close> requests were sent before it, \<open>time E k\<close> is what
  \<^verbatim>\<open>time.time()\<close> returns and \<open>today E k\<close> what \<^verbatim>\<open>datetime.today()\<close> returns (as
  microseconds of local time) at the \<open>k\<close>-th reading of the clock. The library
  functions whose code is not the repository's are parameters too:
  \<open>json_dumps\<close> is \<^verbatim>\<open>json.dumps(v).encode('utf-8')\<close> (\<open>None\<close> when the value cannot be
  serialised, a \<^verbatim>\<open>TypeError\<close>), \<open>json_loads\<close> is \<^verbatim>\<open>json.loads(b.decode('utf-8'))\<close>
  (\<open>None\<close> when the bytes do not decode, a \<^verbatim>\<open>ValueError\<close>), \<open>strftime\<close> formats a
  datetime with \<^verbatim>\<open>'%Y-%m-%dT%H:%M:00'\<close>, and \<open>urlencode\<close> is
  \<^verbatim>\<open>urllib.parse.urlencode\<close> on the parameters in their order.
\<close>

record env =
  urlopen :: "nat \<Rightarrow> request \<Rightarrow> urlopen_result"
  time :: "nat \<Rightarrow> rat"
  today :: "nat \<Rightarrow> int"
  json_dumps :: "pyval \<Rightarrow> string option"
  json_loads :: "string \<Rightarrow> pyval option"
  strftime :: "int \<Rightarrow> string"
  urlencode :: "(string \<times> pyval) list \<Rightarrow> string"

text \<open>What the program has done to the world: the requests sent, the errors logged
  (code and reason of each \<^verbatim>\<open>logger.error\<close> call) and the number of clock readings.\<close>

record world =
  sent :: "request list"
  logged :: "(int \<times> string) list"
  ticks :: nat

section \<open>The transport\<close>

definition BASE_URL :: string where
  "BASE_URL = ''https://api.glowmarkt.com/''"

definition AUTH_REQ :: string where
  "AUTH_REQ = BASE_URL @ ''api/v0-1/auth''"

definition RESOURCE_REQ :: string where
  "RESOURCE_REQ = BASE_URL @ ''api/v0-1/resource''"

text \<open>
  \<^verbatim>\<open>
  def postRequest(url, head=None, body=None, timeout=10):
      req = urllib.request.Request(url)
      req.add_header("Content-Type", "application/json")
      if head:
          for k in head:
              req.add_header(k,head[k])
      if body:
          body = json.dumps(body).encode('utf-8')
      try:
          resp = urllib.request.urlopen(req, body, timeout=timeout) if body else urllib.request.urlopen(req, timeout=timeout)
      except urllib.error.HTTPError as err:
          logger.error("code=%s, reason=%s" % (err.code, err.reason))
          return None
      data = b""
      for buff in iter(lambda: resp.read(65535), b''): data += buff
      returnedContentType = resp.getheader("Content-Type")
      return json.loads(data.decode("utf-8")) if "application/json" in returnedContentType else data
  \<close>
  \<open>head\<close> is the dict of headers as a list (empty for \<^verbatim>\<open>None\<close>), \<open>body\<close> is any value
  (\<open>PNone\<close> by default). Only \<^verbatim>\<open>HTTPError\<close> is caught; a missing \<^verbatim>\<open>Content-Type\<close>
  makes the \<^verbatim>\<open>in\<close> test raise \<^verbatim>\<open>TypeError\<close>.
\<close>

definition postRequest ::
  "env \<Rightarrow> string \<Rightarrow> (string \<times> pyval) list \<Rightarrow> pyval \<Rightarrow> world \<Rightarrow> (error + pyval) \<times> world" where
  "postRequest E u head body w =
     (let hdrs = (''Content-Type'', PStr ''application/json'') # head
      in case (if truthy body
               then (case json_dumps E body of None \<Rightarrow> Inl TypeError | Some b \<Rightarrow> Inr (Some b))
               else Inr None) of
           Inl e \<Rightarrow> (Inl e, w)
         | Inr b \<Rightarrow>
             (let req = \<lparr>url = u, headers = hdrs, data = b\<rparr>;
                  w1 = w\<lparr>sent := sent w @ [req]\<rparr>
              in case urlopen E (length (sent w)) req of
                   HTTPError code reason \<Rightarrow> (Inr PNone, w1\<lparr>logged := logged w1 @ [(code, reason)]\<rparr>)
                 | Raises e \<Rightarrow> (Inl e, w1)
                 | Returns resp \<Rightarrow>
                     (case contentType resp of
                        None \<Rightarrow> (Inl TypeError, w1)
                      | Some ct \<Rightarrow>
                          if contains ''application/json'' ct
                          then (case json_loads E (content resp) of
                                  None \<Rightarrow> (Inl ValueError, w1)
                                | Some v \<Rightarrow> (Inr v, w1))
                          else (Inr (PBytes (content resp)), w1))))"

section \<open>The session object\<close>

text \<open>
  A \<^verbatim>\<open>Glow\<close> instance is its attributes. An attribute exists once it has been
  assigned (\<open>None\<close> before that, where reading it raises \<^verbatim>\<open>AttributeError\<close>); the
  underscore of \<^verbatim>\<open>_appId\<close>, \<^verbatim>\<open>_username\<close>, \<^verbatim>\<open>_password\<close> and \<^verbatim>\<open>_accessToken\<close> is
  written \<open>u_\<close>.
\<close>

record glow =
  u_appId :: "pyval option"
  u_username :: "pyval option"
  u_password :: "pyval option"
  u_accessToken :: "pyval option"
  accountId :: "pyval option"
  expiration :: "pyval option"
  functionalGroupAccounts :: "pyval option"
  userGroups :: "pyval option"
  elecConsumptionId :: "pyval option"
  gasConsumptionId :: "pyval option"

definition new_glow :: glow where
  "new_glow =
     \<lparr>u_appId = None, u_username = None, u_password = None, u_accessToken = None,
      accountId = None, expiration = None, functionalGroupAccounts = None,
      userGroups = None, elecConsumptionId = None, gasConsumptionId = None\<rparr>"

subsection \<open>Statements that change the object and the world, and may raise\<close>

text \<open>
  A statement takes the object and the world and gives back both, together with a value
  or the exception raised; an exception ends the statements that follow but keeps what
  was assigned and sent before it.
\<close>

type_synonym 'a action = "glow \<times> world \<Rightarrow> (error + 'a) \<times> glow \<times> world"

definition bind :: "'a action \<Rightarrow> ('a \<Rightarrow> 'b action) \<Rightarrow> 'b action" where
  "bind m f st = (case m st of (Inl e, st') \<Rightarrow> (Inl e, st') | (Inr x, st') \<Rightarrow> f x st')"

definition return :: "'a \<Rightarrow> 'a action" where
  "return x st = (Inr x, st)"

definition raise :: "error \<Rightarrow> 'a action" where
  "raise e st = (Inl e, st)"

definition lift :: "error + 'a \<Rightarrow> 'a action" where
  "lift r st = (r, st)"

definition attr :: "string \<Rightarrow> (glow \<Rightarrow> pyval option) \<Rightarrow> pyval action" where
  "attr name field st =
     (case field (fst st) of None \<Rightarrow> (Inl (AttributeError name), st) | Some v \<Rightarrow> (Inr v, st))"

definition assign :: "(glow \<Rightarrow> glow) \<Rightarrow> unit action" where
  "assign f st = (Inr (), (f (fst st), snd st))"

definition in_world :: "(world \<Rightarrow> (error + 'a) \<times> world) \<Rightarrow> 'a action" where
  "in_world m st = (case m (snd st) of (r, w') \<Rightarrow> (r, (fst st, w')))"

text \<open>\<^verbatim>\<open>time.time()\<close> and \<^verbatim>\<open>datetime.today()\<close>: one more reading of the clock.\<close>

definition time_time :: "env \<Rightarrow> pyval action" where
  "time_time E st =
     (Inr (PFloat (time E (ticks (snd st)))), (fst st, (snd st)\<lparr>ticks := Suc (ticks (snd st))\<rparr>))"

definition datetime_today :: "env \<Rightarrow> int action" where
  "datetime_today E st =
     (Inr (today E (ticks (snd st))), (fst st, (snd st)\<lparr>ticks := Suc (ticks (snd st))\<rparr>))"

text \<open>\<^verbatim>\<open>timedelta(minutes=m)\<close> in microseconds.\<close>

definition timedelta_minutes :: "int \<Rightarrow> int" where
  "timedelta_minutes m = m * 60000000"

text \<open>\<^verbatim>\<open>x[k1][k2]...\<close>: the subscripts from left to right.\<close>

fun getpath :: "pyval \<Rightarrow> pykey list \<Rightarrow> error + pyval" where
  "getpath x [] = Inr x"
| "getpath x (k # ks) = (case getitem x k of Inl e \<Rightarrow> Inl e | Inr y \<Rightarrow> getpath y ks)"

subsection \<open>Resource identifiers\<close>

text \<open>
  The loop of \<^verbatim>\<open>getResources\<close>:
  \<^verbatim>\<open>
  for r in resp:
      if r['classifier'] == 'electricity.consumption': self.elecConsumptionId = r['resourceId']
      if r['classifier'] == 'gas.consumption': self.gasConsumptionId = r['resourceId']
  \<close>
\<close>

fun record_ids :: "pyval list \<Rightarrow> unit action" where
  "record_ids [] = return ()"
| "record_ids (r # rs) =
     bind (lift (getitem r (KStr ''classifier''))) (\<lambda>c.
     bind (if c = PStr ''electricity.consumption''
           then bind (lift (getitem r (KStr ''resourceId'')))
                  (\<lambda>i. assign (\<lambda>s. s\<lparr>elecConsumptionId := Some i\<rparr>))
           else return ()) (\<lambda>_.
     bind (lift (getitem r (KStr ''classifier''))) (\<lambda>c'.
     bind (if c' = PStr ''gas.consumption''
           then bind (lift (getitem r (KStr ''resourceId'')))
                  (\<lambda>i. assign (\<lambda>s. s\<lparr>gasConsumptionId := Some i\<rparr>))
           else return ()) (\<lambda>_.
     record_ids rs))))"

subsection \<open>The access token and the resource listing\<close>

text \<open>
  \<^verbatim>\<open>
  @property
  def accessToken(self):
      if self.expiration <= time.time(): # Token should be renewed
          head = { "applicationId": self._appId }
          body = { "username" : self._username, "password" : self._password }
          resp = postRequest(_AUTH_REQ, head, body)
          self._accessToken = resp['token']
          self.accountId = resp['accountId']
          self.expiration = resp['exp']
          self.functionalGroupAccounts = resp['functionalGroupAccounts']
          self.userGroups = resp['userGroups']
          self.getResources
      return self._accessToken

  @property
  def getResources(self):
      head = { "applicationId": self._appId, "token": self.accessToken }
      resp = postRequest(_RESOURCE_REQ, head)
      for r in resp: ...
      return resp
  \<close>
  The two properties read each other: renewing the token lists the resources, and
  listing the resources reads the token, which renews it again when the new expiry has
  passed as well. Python bounds the depth of such calls and raises \<^verbatim>\<open>RecursionError\<close>
  beyond it; the first argument is the depth that is left.
\<close>

fun accessToken :: "nat \<Rightarrow> env \<Rightarrow> pyval action"
  and getResources :: "nat \<Rightarrow> env \<Rightarrow> pyval action" where
  "accessToken 0 E = raise RecursionError"
| "accessToken (Suc n) E =
     bind (attr ''expiration'' expiration) (\<lambda>exp.
     bind (time_time E) (\<lambda>now.
     bind (lift (py_le exp now)) (\<lambda>expired.
     bind (if expired
           then
             bind (attr ''_appId'' u_appId) (\<lambda>a.
             bind (attr ''_username'' u_username) (\<lambda>u.
             bind (attr ''_password'' u_password) (\<lambda>p.
             bind (in_world (postRequest E AUTH_REQ [(''applicationId'', a)]
                               (PDict [(KStr ''username'', u), (KStr ''password'', p)]))) (\<lambda>resp.
             bind (lift (getitem resp (KStr ''token''))) (\<lambda>v.
             bind (assign (\<lambda>s. s\<lparr>u_accessToken := Some v\<rparr>)) (\<lambda>_.
             bind (lift (getitem resp (KStr ''accountId''))) (\<lambda>v.
             bind (assign (\<lambda>s. s\<lparr>accountId := Some v\<rparr>)) (\<lambda>_.
             bind (lift (getitem resp (KStr ''exp''))) (\<lambda>v.
             bind (assign (\<lambda>s. s\<lparr>expiration := Some v\<rparr>)) (\<lambda>_.
             bind (lift (getitem resp (KStr ''functionalGroupAccounts''))) (\<lambda>v.
             bind (assign (\<lambda>s. s\<lparr>functionalGroupAccounts := Some v\<rparr>)) (\<lambda>_.
             bind (lift (getitem resp (KStr ''userGroups''))) (\<lambda>v.
             bind (assign (\<lambda>s. s\<lparr>userGroups := Some v\<rparr>)) (\<lambda>_.
             bind (getResources n E) (\<lambda>_. return ())))))))))))))))
           else return ()) (\<lambda>_.
     attr ''_accessToken'' u_accessToken))))"
| "getResources 0 E = raise RecursionError"
| "getResources (Suc n) E =
     bind (attr ''_appId'' u_appId) (\<lambda>a.
     bind (accessToken n E) (\<lambda>tok.
     bind (in_world (postRequest E RESOURCE_REQ [(''applicationId'', a), (''token'', tok)] PNone))
       (\<lambda>resp.
     bind (lift (py_iter resp)) (\<lambda>rs.
     bind (record_ids rs) (\<lambda>_. return resp)))))"

subsection \<open>Construction\<close>

text \<open>
  \<^verbatim>\<open>
  def __init__(self, appId=_APP_ID, username=_USERNAME, password=_PASSWORD):
      head = { "applicationId": appId }
      body = { "username" : username, "password" : password }
      resp = postRequest(_AUTH_REQ, head, body)
      if not resp: raise AuthFailure("Authentication request rejected")
      self._appId = appId
      ...
      self.userGroups = resp['userGroups']
      self.getResources
  \<close>
  \<open>Glow\<close> is the call \<^verbatim>\<open>Glow(appId, username, password)\<close>: \<open>init\<close> on a new object
  with no attribute. When it raises, the caller gets the exception and no object; the
  object returned beside the exception shows what had been assigned by then.
\<close>

definition init :: "nat \<Rightarrow> env \<Rightarrow> pyval \<Rightarrow> pyval \<Rightarrow> pyval \<Rightarrow> unit action" where
  "init n E appId username password =
     bind (in_world (postRequest E AUTH_REQ [(''applicationId'', appId)]
                       (PDict [(KStr ''username'', username), (KStr ''password'', password)])))
       (\<lambda>resp.
     bind (if \<not> truthy resp then raise (AuthFailure ''Authentication request rejected'')
           else return ()) (\<lambda>_.
     bind (assign (\<lambda>s. s\<lparr>u_appId := Some appId\<rparr>)) (\<lambda>_.
     bind (assign (\<lambda>s. s\<lparr>u_username := Some username\<rparr>)) (\<lambda>_.
     bind (assign (\<lambda>s. s\<lparr>u_password := Some password\<rparr>)) (\<lambda>_.
     bind (lift (getitem resp (KStr ''token''))) (\<lambda>v.
     bind (assign (\<lambda>s. s\<lparr>u_accessToken := Some v\<rparr>)) (\<lambda>_.
     bind (lift (getitem resp (KStr ''accountId''))) (\<lambda>v.
     bind (assign (\<lambda>s. s\<lparr>accountId := Some v\<rparr>)) (\<lambda>_.
     bind (lift (getitem resp (KStr ''exp''))) (\<lambda>v.
     bind (assign (\<lambda>s. s\<lparr>expiration := Some v\<rparr>)) (\<lambda>_.
     bind (lift (getitem resp (KStr ''functionalGroupAccounts''))) (\<lambda>v.
     bind (assign (\<lambda>s. s\<lparr>functionalGroupAccounts := Some v\<rparr>)) (\<lambda>_.
     bind (lift (getitem resp (KStr ''userGroups''))) (\<lambda>v.
     bind (assign (\<lambda>s. s\<lparr>userGroups := Some v\<rparr>)) (\<lambda>_.
     bind (getResources n E) (\<lambda>_. return ()))))))))))))))))"

definition Glow :: "nat \<Rightarrow> env \<Rightarrow> pyval \<Rightarrow> pyval \<Rightarrow> pyval \<Rightarrow> world \<Rightarrow> (error + unit) \<times> glow \<times> world" where
  "Glow n E appId username password w = init n E appId username password (new_glow, w)"

subsection \<open>Readings, tariffs and meter reads\<close>

text \<open>
  \<^verbatim>\<open>
  def getReading(self, id, dfrom, dto, period='P1D', offset=0, func='sum'):
      head = { "applicationId": self._appId, "token": self.accessToken }
      params = { "from": dfrom, "to": dto, "period": period, "offset": offset, "function": func }
      _res_url = _RESOURCE_REQ + "/" + id + "/readings?" + urllib.parse.urlencode(params)
      resp = postRequest(_res_url, head)
      return resp
  \<close>
\<close>

definition getReading ::
  "nat \<Rightarrow> env \<Rightarrow> pyval \<Rightarrow> pyval \<Rightarrow> pyval \<Rightarrow> pyval \<Rightarrow> pyval \<Rightarrow> pyval \<Rightarrow> pyval action" where
  "getReading n E ident dfrom dto period offset func =
     bind (attr ''_appId'' u_appId) (\<lambda>a.
     bind (accessToken n E) (\<lambda>tok.
     bind (lift (str_add (RESOURCE_REQ @ ''/'') ident)) (\<lambda>u.
     in_world (postRequest E
        (u @ ''/readings?'' @
           urlencode E [(''from'', dfrom), (''to'', dto), (''period'', period),
                        (''offset'', offset), (''function'', func)])
        [(''applicationId'', a), (''token'', tok)] PNone))))"

text \<open>
  \<^verbatim>\<open>
  def getCurResource(self, id):
      head = { "applicationId": self._appId, "token": self.accessToken }
      _res_url = _RESOURCE_REQ + "/" + id + "/current"
      resp = postRequest(_res_url, head)
      return resp
  \<close>
\<close>

definition getCurResource :: "nat \<Rightarrow> env \<Rightarrow> pyval \<Rightarrow> pyval action" where
  "getCurResource n E ident =
     bind (attr ''_appId'' u_appId) (\<lambda>a.
     bind (accessToken n E) (\<lambda>tok.
     bind (lift (str_add (RESOURCE_REQ @ ''/'') ident)) (\<lambda>u.
     in_world (postRequest E (u @ ''/current'') [(''applicationId'', a), (''token'', tok)] PNone))))"


definition getGasTariff :: "nat \<Rightarrow> env \<Rightarrow> pyval action" where
  "getGasTariff n E =
     bind (attr ''_appId'' u_appId) (\<lambda>a.
     bind (accessToken n E) (\<lambda>tok.
     bind (attr ''gasConsumptionId'' gasConsumptionId) (\<lambda>ident.
     bind (lift (str_add (RESOURCE_REQ @ ''/'') ident)) (\<lambda>u.
     in_world (postRequest E (u @ ''/tariff'') [(''applicationId'', a), (''token'', tok)] PNone)))))"


text \<open>
  \<^verbatim>\<open>
  _tariff = self.getElecTariff['data'][0]['plan'][0]['planDetail']
  _return['rate'] = _tariff[0]['rate']
  _return['standing'] = _tariff[1]['standing']
  _return['cost'] = toCost(_return['rate'], _return['data'][0][1], _return['units'])
  return _return
  \<close>
  The end of both current-usage properties, after the tariff has been fetched.
\<close>

definition add_cost :: "pyval \<Rightarrow> pyval \<Rightarrow> error + pyval" where
  "add_cost ret tariff_resp =
     (case getpath tariff_resp [KStr ''data'', KInt 0, KStr ''plan'', KInt 0, KStr ''planDetail''] of
        Inl e \<Rightarrow> Inl e | Inr tariff \<Rightarrow>
     (case getpath tariff [KInt 0, KStr ''rate''] of Inl e \<Rightarrow> Inl e | Inr rate \<Rightarrow>
     (case setitem ret (KStr ''rate'') rate of Inl e \<Rightarrow> Inl e | Inr ret1 \<Rightarrow>
     (case getpath tariff [KInt 1, KStr ''standing''] of Inl e \<Rightarrow> Inl e | Inr standing \<Rightarrow>
     (case setitem ret1 (KStr ''standing'') standing of Inl e \<Rightarrow> Inl e | Inr ret2 \<Rightarrow>
     (case getitem ret2 (KStr ''rate'') of Inl e \<Rightarrow> Inl e | Inr r \<Rightarrow>
     (case getpath ret2 [KStr ''data'', KInt 0, KInt 1] of Inl e \<Rightarrow> Inl e | Inr a \<Rightarrow>
     (case getitem ret2 (KStr ''units'') of Inl e \<Rightarrow> Inl e | Inr u \<Rightarrow>
        setitem ret2 (KStr ''cost'') (toCost r a u)))))))))"


text \<open>
  \<^verbatim>\<open>
  @property
  def getGasCurrent(self):
      _today = datetime.today()
      _todayM30M = _today - timedelta(minutes=30)
      _dtTo = _today.strftime('%Y-%m-%dT%H:%M:00')
      _dtFrom = _todayM30M.strftime('%Y-%m-%dT%H:%M:00')
      _gu = self.getReading(self.gasConsumptionId, _dtFrom, _dtTo, 'PT30M', 0, 'sum')
      _return = self.getCurResource(self.gasConsumptionId)
      _return['data'][0] = _gu['data'][0]
      _tariff = self.getGasTariff['data'][0]['plan'][0]['planDetail']
      ...
  \<close>
\<close>

definition getGasCurrent :: "nat \<Rightarrow> env \<Rightarrow> pyval action" where
  "getGasCurrent n E =
     bind (datetime_today E) (\<lambda>now.
     bind (attr ''gasConsumptionId'' gasConsumptionId) (\<lambda>ident.
     bind (getReading n E ident
             (PStr (strftime E (now - timedelta_minutes 30))) (PStr (strftime E now))
             (PStr ''PT30M'') (PInt 0) (PStr ''sum'')) (\<lambda>gu.
     bind (attr ''gasConsumptionId'' gasConsumptionId) (\<lambda>ident'.
     bind (getCurResource n E ident') (\<lambda>ret.
     bind (lift (getpath gu [KStr ''data'', KInt 0])) (\<lambda>point.
     bind (lift (setitem2 ret (KStr ''data'') (KInt 0) point)) (\<lambda>ret'.
     bind (getGasTariff n E) (\<lambda>t.
     lift (add_cost ret' t)))))))))"



section \<open>Notions used to state the properties\<close>

text \<open>
  The JSON value that the \<open>k\<close>-th request is answered with, when \<^verbatim>\<open>urlopen\<close> returns a
  response whose content type mentions \<^verbatim>\<open>application/json\<close> and whose body decodes.
\<close>

definition answer :: "env \<Rightarrow> nat \<Rightarrow> request \<Rightarrow> pyval option" where
  "answer E k req =
     (case urlopen E k req of
        Returns resp \<Rightarrow>
          (case contentType resp of
             Some ct \<Rightarrow> if contains ''application/json'' ct then json_loads E (content resp) else None
           | None \<Rightarrow> None)
      | _ \<Rightarrow> None)"

text \<open>The request that \<open>postRequest\<close> sends for a URL, a dict of headers and no body.\<close>

definition get_request :: "string \<Rightarrow> (string \<times> pyval) list \<Rightarrow> request" where
  "get_request u head =
     \<lparr>url = u, headers = (''Content-Type'', PStr ''application/json'') # head, data = None\<rparr>"

text \<open>The authentication request for an application identifier and the encoded
  credentials.\<close>

definition auth_request :: "pyval \<Rightarrow> string \<Rightarrow> request" where
  "auth_request a b =
     \<lparr>url = AUTH_REQ,
      headers = [(''Content-Type'', PStr ''application/json''), (''applicationId'', a)],
      data = Some b\<rparr>"

definition credentials :: "pyval \<Rightarrow> pyval \<Rightarrow> pyval" where
  "credentials u p = PDict [(KStr ''username'', u), (KStr ''password'', p)]"

text \<open>The stored expiry is a number greater than the clock at its \<open>k\<close>-th reading.\<close>

definition unexpired :: "env \<Rightarrow> glow \<Rightarrow> nat \<Rightarrow> bool" where
  "unexpired E s k =
     (case expiration s of
        None \<Rightarrow> False
      | Some e \<Rightarrow> (case num_value e of None \<Rightarrow> False | Some x \<Rightarrow> time E k < x))"

text \<open>
  A resource descriptor has a \<open>classifier\<close> and a \<open>resourceId\<close>. \<open>last_resource c ds\<close>
  is the \<open>resourceId\<close> of the last descriptor of \<open>ds\<close> whose classifier is exactly \<open>c\<close>.
\<close>

definition is_descriptor :: "pyval \<Rightarrow> bool" where
  "is_descriptor d =
     (case (getitem d (KStr ''classifier''), getitem d (KStr ''resourceId'')) of
        (Inr c, Inr i) \<Rightarrow> True
      | _ \<Rightarrow> False)"

definition last_resource :: "string \<Rightarrow> pyval list \<Rightarrow> pyval option" where
  "last_resource c ds =
     (case filter (\<lambda>d. getitem d (KStr ''classifier'') = Inr (PStr c)) ds of
        [] \<Rightarrow> None
      | d # fs \<Rightarrow> (case getitem (last (d # fs)) (KStr ''resourceId'') of
                    Inr i \<Rightarrow> Some i
                  | Inl e \<Rightarrow> None))"

text \<open>The identifiers after a listing \<open>ds\<close> has been processed: the last matching
  descriptor's, or the one stored before when no descriptor matches.\<close>

definition with_ids :: "pyval list \<Rightarrow> glow \<Rightarrow> glow" where
  "with_ids ds s =
     s\<lparr>elecConsumptionId :=
          (case last_resource ''electricity.consumption'' ds of
             None \<Rightarrow> elecConsumptionId s | Some i \<Rightarrow> Some i),
       gasConsumptionId :=
          (case last_resource ''gas.consumption'' ds of
             None \<Rightarrow> gasConsumptionId s | Some i \<Rightarrow> Some i)\<rparr>"

text \<open>The headers of every request for a resource, and the three requests of the gas
  accessors. The reading asked for by \<open>getGasCurrent\<close> at local time \<open>now\<close> covers the
  window from \<open>now\<close> minus 30 minutes to \<open>now\<close>, with period \<open>PT30M\<close>, offset 0 and
  function \<open>sum\<close>.\<close>

definition resource_headers :: "pyval \<Rightarrow> pyval \<Rightarrow> (string \<times> pyval) list" where
  "resource_headers a tok = [(''applicationId'', a), (''token'', tok)]"

definition window_params :: "env \<Rightarrow> int \<Rightarrow> (string \<times> pyval) list" where
  "window_params E now =
     [(''from'', PStr (strftime E (now - timedelta_minutes 30))),
      (''to'', PStr (strftime E now)),
      (''period'', PStr ''PT30M''), (''offset'', PInt 0), (''function'', PStr ''sum'')]"

definition resource_url :: "string \<Rightarrow> string \<Rightarrow> string" where
  "resource_url ident sub = RESOURCE_REQ @ ''/'' @ ident @ sub"




section \<open>Example environments and sessions\<close>

text \<open>
  Concrete inputs on which the properties are instantiated. The network follows a
  script: the \<open>k\<close>-th request gets the \<open>k\<close>-th outcome of a list, and the connection
  fails once the list is used up. Bodies are named rather than spelled out, and
  \<open>json_loads\<close> is the table that says what each body decodes to; \<open>json_dumps\<close> gives
  every value the same bytes. The clock stands still at \<open>t\<close> seconds; the local time is
  10:30 on 1 March 2021, in microseconds since the start of that day.
\<close>

definition script :: "urlopen_result list \<Rightarrow> nat \<Rightarrow> request \<Rightarrow> urlopen_result" where
  "script rs k req = (if k < length rs then rs ! k else Raises URLError)"

definition json_body :: "string \<Rightarrow> urlopen_result" where
  "json_body b = Returns \<lparr>contentType = Some ''application/json; charset=utf-8'', content = b\<rparr>"

definition unreserved :: "char \<Rightarrow> bool" where
  "unreserved c =
     (c \<in> set ''ABCDEFGHIJKLMNOPQRSTUVWXYZabcdefghijklmnopqrstuvwxyz0123456789_.-~'')"

definition hex_digit :: "nat \<Rightarrow> char" where
  "hex_digit d = ''0123456789ABCDEF'' ! d"

definition quote_plus :: "string \<Rightarrow> string" where
  "quote_plus s =
     concat (map (\<lambda>c. if unreserved c then [c]
                      else if c = CHR '' '' then ''+''
                      else [CHR ''%'', hex_digit (of_char c div 16), hex_digit (of_char c mod 16)]) s)"

text \<open>\<^verbatim>\<open>urlencode\<close> on parameters that are strs, or the int 0 (everything else is
  written as 0 here).\<close>

fun demo_urlencode :: "(string \<times> pyval) list \<Rightarrow> string" where
  "demo_urlencode [] = []"
| "demo_urlencode ((k, v) # ps) =
     quote_plus k @ ''='' @ (case v of PStr s \<Rightarrow> quote_plus s | _ \<Rightarrow> ''0'')
       @ (if ps = [] then [] else ''&'' @ demo_urlencode ps)"

definition demo_strftime :: "int \<Rightarrow> string" where
  "demo_strftime t =
     (if t = 37800000000 then ''2021-03-01T10:30:00''
      else if t = 36000000000 then ''2021-03-01T10:00:00''
      else ''2021-03-01T00:00:00'')"

definition demo_env :: "urlopen_result list \<Rightarrow> (string \<times> pyval) list \<Rightarrow> rat \<Rightarrow> env" where
  "demo_env rs bodies t =
     \<lparr>urlopen = script rs, time = (\<lambda>k. t), today = (\<lambda>k. 37800000000),
      json_dumps = (\<lambda>v. Some ''{}''), json_loads = map_of bodies,
      strftime = demo_strftime, urlencode = demo_urlencode\<rparr>"

definition world0 :: world where
  "world0 = \<lparr>sent = [], logged = [], ticks = 0\<rparr>"

text \<open>A session as a successful construction leaves it, with expiry \<open>x\<close>.\<close>

definition demo_session :: "int \<Rightarrow> glow" where
  "demo_session x =
     \<lparr>u_appId = Some (PStr ''app''), u_username = Some (PStr ''user''),
      u_password = Some (PStr ''pw''), u_accessToken = Some (PStr ''tok0''),
      accountId = Some (PStr ''acc''), expiration = Some (PInt x),
      functionalGroupAccounts = Some (PList []), userGroups = Some (PList []),
      elecConsumptionId = Some (PStr ''E0''), gasConsumptionId = Some (PStr ''G0'')\<rparr>"

text \<open>The same session before any listing named a resource.\<close>

definition bare_session :: "int \<Rightarrow> glow" where
  "bare_session x = (demo_session x)\<lparr>elecConsumptionId := None, gasConsumptionId := None\<rparr>"

text \<open>The bodies of the examples and what they decode to.\<close>

definition demo_bodies :: "(string \<times> pyval) list" where
  "demo_bodies =
     [(''auth'',
         PDict [(KStr ''token'', PStr ''tok1''), (KStr ''accountId'', PStr ''acc1''),
                (KStr ''exp'', PInt 5000), (KStr ''functionalGroupAccounts'', PList []),
                (KStr ''userGroups'', PList [])]),
      (''stale'',
         PDict [(KStr ''token'', PStr ''tokS''), (KStr ''accountId'', PStr ''acc1''),
                (KStr ''exp'', PInt 900), (KStr ''functionalGroupAccounts'', PList []),
                (KStr ''userGroups'', PList [])]),
      (''resources'',
         PList [PDict [(KStr ''classifier'', PStr ''electricity.consumption''),
                       (KStr ''resourceId'', PStr ''E1'')],
                PDict [(KStr ''classifier'', PStr ''gas.consumption''),
                       (KStr ''resourceId'', PStr ''G1'')],
                PDict [(KStr ''classifier'', PStr ''electricity.consumption.cost''),
                       (KStr ''resourceId'', PStr ''E2'')]]),
      (''costs'',
         PList [PDict [(KStr ''classifier'', PStr ''electricity.consumption.cost''),
                       (KStr ''resourceId'', PStr ''E2'')]]),
      (''current'',
         PDict [(KStr ''data'', PList [PList [PStr ''T0'', PInt 5]]), (KStr ''units'', PStr ''kWh'')]),
      (''window'',
         PDict [(KStr ''data'', PList [PList [PStr ''T1'', PInt 7]])]),
      (''tariff'',
         PDict [(KStr ''data'',
           PList [PDict [(KStr ''plan'',
             PList [PDict [(KStr ''planDetail'',
               PList [PDict [(KStr ''rate'', PFloat (15 / 100))],
                      PDict [(KStr ''standing'', PInt 25)]])]])]])]),
      (''meterread'',
         PDict [(KStr ''data'', PList [PList [PStr ''T0'', PInt 100]]), (KStr ''units'', PStr ''kWh'')]),
      (''consumption'',
         PDict [(KStr ''data'', PList [PList [PStr ''T1'', PInt 3]])])]"

section \<open>Basic facts\<close>

text \<open>The equations of the two properties are unfolded only where a proof asks for
  them.\<close>

declare accessToken.simps [simp del] getResources.simps [simp del]

lemma postRequest_answer:
  assumes "answer E (length (sent w)) (get_request u head) = Some v"
  shows "postRequest E u head PNone w = (Inr v, w\<lparr>sent := sent w @ [get_request u head]\<rparr>)"
  using assms
  by (auto simp: postRequest_def answer_def get_request_def Let_def
           split: urlopen_result.splits option.splits if_splits)

lemma postRequest_answer_body:
  assumes "truthy body" and "json_dumps E body = Some b"
    and "answer E (length (sent w))
           \<lparr>url = u, headers = (''Content-Type'', PStr ''application/json'') # head,
            data = Some b\<rparr> = Some v"
  shows "postRequest E u head body w =
           (Inr v, w\<lparr>sent := sent w @
              [\<lparr>url = u, headers = (''Content-Type'', PStr ''application/json'') # head,
                data = Some b\<rparr>]\<rparr>)"
  using assms
  by (auto simp: postRequest_def answer_def Let_def
           split: urlopen_result.splits option.splits if_splits)

lemma accessToken_fresh:
  assumes "unexpired E s (ticks w)" and "u_accessToken s = Some tok"
  shows "accessToken (Suc n) E (s, w) = (Inr tok, s, w\<lparr>ticks := Suc (ticks w)\<rparr>)"
  using assms
  by (auto simp: accessToken.simps unexpired_def bind_def attr_def time_time_def lift_def
           py_le_def return_def split: option.splits)

lemma descriptor_resourceId:
  "is_descriptor d \<Longrightarrow> \<exists>i. getitem d (KStr ''resourceId'') = Inr i"
  by (auto simp: is_descriptor_def split: sum.splits)

lemma descriptor_classifier:
  "is_descriptor d \<Longrightarrow> \<exists>c. getitem d (KStr ''classifier'') = Inr c"
  by (auto simp: is_descriptor_def split: sum.splits)

lemma last_resource_Nil: "last_resource c [] = None"
  by (simp add: last_resource_def)

lemma last_resource_Cons:
  assumes "is_descriptor r" and "list_all is_descriptor rs"
  shows "last_resource c (r # rs) =
           (case last_resource c rs of
              Some i \<Rightarrow> Some i
            | None \<Rightarrow> if getitem r (KStr ''classifier'') = Inr (PStr c)
                      then (case getitem r (KStr ''resourceId'') of Inr i \<Rightarrow> Some i | Inl e \<Rightarrow> None)
                      else None)"
proof (cases "filter (\<lambda>d. getitem d (KStr ''classifier'') = Inr (PStr c)) rs")
  case Nil
  then show ?thesis
    by (simp add: last_resource_def)
next
  case (Cons d fs)
  have "last (d # fs) \<in> set rs"
    by (metis Cons filter_is_subset last_in_set list.distinct(1) subsetD)
  then have "is_descriptor (last (d # fs))"
    using assms(2) by (simp add: list_all_iff)
  then obtain i where "getitem (last (d # fs)) (KStr ''resourceId'') = Inr i"
    using descriptor_resourceId by blast
  then show ?thesis
    using Cons by (simp add: last_resource_def)
qed

lemma record_ids_descriptors:
  "list_all is_descriptor ds \<Longrightarrow> record_ids ds (s, w) = (Inr (), with_ids ds s, w)"
proof (induction ds arbitrary: s)
  case Nil
  then show ?case
    by (simp add: return_def with_ids_def last_resource_Nil)
next
  case (Cons r rs)
  then have r: "is_descriptor r" and rs: "list_all is_descriptor rs"
    by simp_all
  obtain c i where c: "getitem r (KStr ''classifier'') = Inr c"
    and i: "getitem r (KStr ''resourceId'') = Inr i"
    using r descriptor_classifier descriptor_resourceId by blast
  show ?case
    using Cons.IH [OF rs] c i
    by (auto simp: bind_def lift_def assign_def return_def with_ids_def
          last_resource_Cons [OF r rs] split: option.splits)
qed

lemma getResources_listing:
  assumes "u_appId s = Some a"
    and "accessToken n E (s, w) = (Inr tok, s1, w1)"
    and "answer E (length (sent w1))
           (get_request RESOURCE_REQ [(''applicationId'', a), (''token'', tok)]) = Some (PList ds)"
    and "list_all is_descriptor ds"
  shows "getResources (Suc n) E (s, w) =
           (Inr (PList ds), with_ids ds s1,
            w1\<lparr>sent := sent w1 @
               [get_request RESOURCE_REQ [(''applicationId'', a), (''token'', tok)]]\<rparr>)"
  using assms(1,2) postRequest_answer [OF assms(3)] record_ids_descriptors [OF assms(4)]
  by (simp add: getResources.simps bind_def attr_def in_world_def lift_def return_def)
lemmas run_simps =
  accessToken.simps getResources.simps bind_def attr_def time_time_def lift_def in_world_def
  assign_def return_def raise_def py_le_def postRequest_def demo_env_def script_def
  json_body_def demo_bodies_def demo_session_def world0_def auth_request_def get_request_def


lemma map_of_dict_set:
  "map_of (dict_set k v kvs) k' = (if k' = k then Some v else map_of kvs k')"
  by (induction kvs) auto


lemma py_index_0: "py_index (Suc n) 0 = Some 0"
  by (simp add: py_index_def)


lemma getCurResource_fresh:
  assumes "u_appId s = Some a" and "u_accessToken s = Some tok" and "unexpired E s (ticks w)"
    and "answer E (length (sent w))
           (get_request (resource_url g ''/current'') (resource_headers a tok)) = Some v"
  shows "getCurResource (Suc n) E (PStr g) (s, w) =
           (Inr v, s,
            w\<lparr>sent := sent w @ [get_request (resource_url g ''/current'') (resource_headers a tok)],
              ticks := Suc (ticks w)\<rparr>)"
proof -
  have "postRequest E (resource_url g ''/current'') (resource_headers a tok) PNone
          (w\<lparr>ticks := Suc (ticks w)\<rparr>) =
        (Inr v, (w\<lparr>ticks := Suc (ticks w)\<rparr>)\<lparr>sent := sent (w\<lparr>ticks := Suc (ticks w)\<rparr>) @
           [get_request (resource_url g ''/current'') (resource_headers a tok)]\<rparr>)"
    by (rule postRequest_answer) (simp add: assms(4))
  then show ?thesis
    using assms(1) accessToken_fresh [OF assms(3,2), of n]
    by (simp add: getCurResource_def bind_def attr_def lift_def in_world_def
          resource_url_def resource_headers_def)
qed

lemma getReading_fresh:
  assumes "u_appId s = Some a" and "u_accessToken s = Some tok" and "unexpired E s (ticks w)"
    and "ps = [(''from'', dfrom), (''to'', dto), (''period'', period),
               (''offset'', offset), (''function'', func)]"
    and "answer E (length (sent w))
           (get_request (resource_url g (''/readings?'' @ urlencode E ps))
              (resource_headers a tok)) = Some v"
  shows "getReading (Suc n) E (PStr g) dfrom dto period offset func (s, w) =
           (Inr v, s,
            w\<lparr>sent := sent w @ [get_request (resource_url g (''/readings?'' @ urlencode E ps))
                                   (resource_headers a tok)],
              ticks := Suc (ticks w)\<rparr>)"
proof -
  have "postRequest E (resource_url g (''/readings?'' @ urlencode E ps)) (resource_headers a tok)
          PNone (w\<lparr>ticks := Suc (ticks w)\<rparr>) =
        (Inr v, (w\<lparr>ticks := Suc (ticks w)\<rparr>)\<lparr>sent := sent (w\<lparr>ticks := Suc (ticks w)\<rparr>) @
           [get_request (resource_url g (''/readings?'' @ urlencode E ps))
              (resource_headers a tok)]\<rparr>)"
    using assms(5) by (intro postRequest_answer) simp
  then show ?thesis
    using assms(1,4) accessToken_fresh [OF assms(3,2), of n]
    by (simp add: getReading_def bind_def attr_def lift_def in_world_def
          resource_url_def resource_headers_def)
qed

lemma getGasTariff_fresh:
  assumes "u_appId s = Some a" and "u_accessToken s = Some tok" and "unexpired E s (ticks w)"
    and "gasConsumptionId s = Some (PStr g)"
    and "answer E (length (sent w))
           (get_request (resource_url g ''/tariff'') (resource_headers a tok)) = Some v"
  shows "getGasTariff (Suc n) E (s, w) =
           (Inr v, s,
            w\<lparr>sent := sent w @ [get_request (resource_url g ''/tariff'') (resource_headers a tok)],
              ticks := Suc (ticks w)\<rparr>)"
proof -
  have "postRequest E (resource_url g ''/tariff'') (resource_headers a tok) PNone
          (w\<lparr>ticks := Suc (ticks w)\<rparr>) =
        (Inr v, (w\<lparr>ticks := Suc (ticks w)\<rparr>)\<lparr>sent := sent (w\<lparr>ticks := Suc (ticks w)\<rparr>) @
           [get_request (resource_url g ''/tariff'') (resource_headers a tok)]\<rparr>)"
    by (rule postRequest_answer) (simp add: assms(5))
  then show ?thesis
    using assms(1,4) accessToken_fresh [OF assms(3,2), of n]
    by (simp add: getGasTariff_def bind_def attr_def lift_def in_world_def
          resource_url_def resource_headers_def)
qed


lemma add_cost_shape:
  assumes "map_of c (KStr ''data'') = Some (PList (point # points))"
    and "getitem point (KInt 1) = Inr v"
    and "map_of c (KStr ''units'') = Some un"
    and "getpath t [KStr ''data'', KInt 0, KStr ''plan'', KInt 0, KStr ''planDetail''] = Inr detail"
    and "getpath detail [KInt 0, KStr ''rate''] = Inr rate"
    and "getpath detail [KInt 1, KStr ''standing''] = Inr standing"
  shows "add_cost (PDict c) t =
           Inr (PDict (dict_set (KStr ''cost'') (toCost rate v un)
                  (dict_set (KStr ''standing'') standing
                     (dict_set (KStr ''rate'') rate c))))"
  using assms
  by (simp add: add_cost_def map_of_dict_set py_index_0)
subsection \<open>Statements that keep a property of the object\<close>
































section \<open>Properties of the cost computation\<close>



text \<open>
  Claim C5 as stated (every non-numeric amount gives 0) fails: with an integer rate and
  a unit other than \<open>W\<close>, a str amount is multiplied as a sequence, which raises
  nothing, so the repeated string is returned.
\<close>

theorem toCost_non_numeric_counterexample:
  "num_value (PStr ''ab'') = None
   \<and> toCost (PInt 2) (PStr ''ab'') (PStr ''kWh'') = PStr ''abab''
   \<and> toCost (PInt 2) (PStr ''ab'') (PStr ''kWh'') \<noteq> PInt 0"
  by (simp add: toCost_def py_mul_def repeat_def numeral_2_eq_2)

text \<open>
  Claim C5, amended. \<open>toCost\<close> never raises (it is a total function into values). For
  an amount that is not a number (\<^verbatim>\<open>None\<close>, str, bytes, list, dict) it returns 0 when
  the unit is exactly \<open>W\<close>, when the rate is not an int, and when the amount is not a
  sequence. (A str, bytes or list amount with an int rate and another unit is the case
  of the counterexample; nothing is said about it here.)
\<close>

theorem toCost_non_numeric:
  assumes "num_value ammount = None"
    and "unit = PStr ''W'' \<or> intlike rate = None \<or> \<not> is_sequence ammount"
  shows "toCost rate ammount unit = PInt 0"
  using assms
  by (cases ammount; cases rate)
     (auto simp: toCost_def py_truediv_def py_mul_def is_sequence_def split: option.splits)

theorem toCost_non_numeric_witness:
  "toCost (PFloat (15 / 100)) PNone (PStr ''kWh'') = PInt 0
   \<and> toCost (PInt 2) (PStr ''ab'') (PStr ''W'') = PInt 0
   \<and> toCost (PFloat (15 / 100)) (PStr ''ab'') (PStr ''kWh'') = PInt 0"
proof -
  have 1: "num_value PNone = None" and 2: "num_value (PStr ''ab'') = None"
    by simp_all
  have 3: "PStr ''kWh'' = PStr ''W'' \<or> intlike (PFloat (15 / 100)) = None
             \<or> \<not> is_sequence PNone"
    and 4: "PStr ''W'' = PStr ''W'' \<or> intlike (PInt 2) = None
             \<or> \<not> is_sequence (PStr ''ab'')"
    and 5: "PStr ''kWh'' = PStr ''W'' \<or> intlike (PFloat (15 / 100)) = None
             \<or> \<not> is_sequence (PStr ''ab'')"
    by simp_all
  show ?thesis
    using toCost_non_numeric [OF 1 3] toCost_non_numeric [OF 2 4] toCost_non_numeric [OF 2 5]
    by simp
qed

section \<open>Properties of the transport\<close>

text \<open>
  Claim C9 as stated (no transport failure escapes \<open>postRequest\<close>) fails: only
  \<^verbatim>\<open>HTTPError\<close> is caught. When the name does not resolve, \<^verbatim>\<open>urlopen\<close> raises
  \<^verbatim>\<open>URLError\<close>, and on a timeout a \<^verbatim>\<open>TimeoutError\<close>; both leave \<open>postRequest\<close> as
  exceptions, and nothing is logged.
\<close>

theorem postRequest_escapes_counterexample:
  "postRequest (demo_env [Raises URLError] [] 1000) AUTH_REQ [] PNone world0 =
     (Inl URLError, world0\<lparr>sent := [get_request AUTH_REQ []]\<rparr>)
   \<and> postRequest (demo_env [Raises TimeoutError] [] 1000) AUTH_REQ [] PNone world0 =
     (Inl TimeoutError, world0\<lparr>sent := [get_request AUTH_REQ []]\<rparr>)"
  by (simp add: postRequest_def demo_env_def script_def world0_def get_request_def)

text \<open>
  Claim C9, amended. When \<^verbatim>\<open>urlopen\<close> raises \<^verbatim>\<open>HTTPError\<close> (a response that is not a
  success), \<open>postRequest\<close> logs the code and the reason and returns \<^verbatim>\<open>None\<close>; any other
  exception of \<^verbatim>\<open>urlopen\<close> is raised by \<open>postRequest\<close> unchanged, with nothing logged.
  Here \<open>req\<close> is the request sent, \<open>dat\<close> its encoded body, if there is one.
\<close>

theorem postRequest_failures:
  assumes "dat = (if truthy body then json_dumps E body else None)"
    and "truthy body \<longrightarrow> dat \<noteq> None"
    and "req = \<lparr>url = u, headers = (''Content-Type'', PStr ''application/json'') # head,
                 data = dat\<rparr>"
  shows "(urlopen E (length (sent w)) req = HTTPError code reason \<longrightarrow>
            postRequest E u head body w =
              (Inr PNone, w\<lparr>sent := sent w @ [req], logged := logged w @ [(code, reason)]\<rparr>))
       \<and> (urlopen E (length (sent w)) req = Raises e \<longrightarrow>
            postRequest E u head body w = (Inl e, w\<lparr>sent := sent w @ [req]\<rparr>))"
  using assms by (auto simp: postRequest_def Let_def split: option.splits)

theorem postRequest_failures_witness:
  "postRequest (demo_env [HTTPError 500 ''Internal Server Error''] [] 1000)
     RESOURCE_REQ [(''applicationId'', PStr ''app'')] PNone world0 =
     (Inr PNone,
      world0\<lparr>sent := sent world0 @ [get_request RESOURCE_REQ [(''applicationId'', PStr ''app'')]],
             logged := logged world0 @ [(500, ''Internal Server Error'')]\<rparr>)"
proof -
  let ?E = "demo_env [HTTPError 500 ''Internal Server Error''] [] 1000"
  let ?req = "get_request RESOURCE_REQ [(''applicationId'', PStr ''app'')]"
  have 1: "None = (if truthy PNone then json_dumps ?E PNone else None)"
    by simp
  have 2: "truthy PNone \<longrightarrow> (None :: string option) \<noteq> None"
    by simp
  have 3: "?req = \<lparr>url = RESOURCE_REQ,
      headers = (''Content-Type'', PStr ''application/json'') # [(''applicationId'', PStr ''app'')],
      data = None\<rparr>"
    by (simp add: get_request_def)
  have 4: "urlopen ?E (length (sent world0)) ?req = HTTPError 500 ''Internal Server Error''"
    by (simp add: demo_env_def script_def world0_def)
  from postRequest_failures [OF 1 2 3, of world0 500 "''Internal Server Error''" URLError] 4
  show ?thesis by blast
qed

section \<open>Properties of the session\<close>

text \<open>
  Claim C1. In a session whose stored expiry is greater than the current time, reading
  the access token returns the stored token. The object is unchanged, and so is the
  world but for the one reading of the clock: no request is sent.
\<close>

theorem accessToken_cached:
  assumes "expiration s = Some e" and "num_value e = Some x" and "time E (ticks w) < x"
    and "u_accessToken s = Some tok"
  shows "accessToken (Suc n) E (s, w) = (Inr tok, s, w\<lparr>ticks := Suc (ticks w)\<rparr>)"
proof -
  have "unexpired E s (ticks w)"
    using assms by (simp add: unexpired_def)
  then show ?thesis
    using assms(4) by (rule accessToken_fresh)
qed

theorem accessToken_cached_witness:
  "accessToken (Suc 0) (demo_env [] [] 1000) (demo_session 2000, world0) =
     (Inr (PStr ''tok0''), demo_session 2000, world0\<lparr>ticks := Suc (ticks world0)\<rparr>)"
proof -
  have 1: "expiration (demo_session 2000) = Some (PInt 2000)"
    by (simp add: demo_session_def)
  have 2: "num_value (PInt 2000) = Some 2000"
    by simp
  have 3: "time (demo_env [] [] 1000) (ticks world0) < 2000"
    by (simp add: demo_env_def)
  have 4: "u_accessToken (demo_session 2000) = Some (PStr ''tok0'')"
    by (simp add: demo_session_def)
  show ?thesis
    by (rule accessToken_cached [OF 1 2 3 4])
qed

text \<open>
  Claim C3. When the authentication request of the constructor comes back with a falsy
  value (\<^verbatim>\<open>None\<close> after an HTTP error, an empty body), the constructor raises
  \<^verbatim>\<open>AuthFailure\<close>, and no attribute of the object has been assigned: it is still the
  new object.
\<close>

theorem Glow_rejected:
  assumes "postRequest E AUTH_REQ [(''applicationId'', appId)]
             (PDict [(KStr ''username'', username), (KStr ''password'', password)]) w
           = (Inr resp, w')"
    and "\<not> truthy resp"
  shows "Glow n E appId username password w =
           (Inl (AuthFailure ''Authentication request rejected''), new_glow, w')"
  using assms by (simp add: Glow_def init_def bind_def in_world_def raise_def)

theorem Glow_rejected_witness:
  "Glow 5 (demo_env [HTTPError 401 ''Unauthorized''] [] 1000)
     (PStr ''app'') (PStr ''user'') (PStr ''pw'') world0 =
   (Inl (AuthFailure ''Authentication request rejected''), new_glow,
    world0\<lparr>sent := [auth_request (PStr ''app'') ''{}''], logged := [(401, ''Unauthorized'')]\<rparr>)"
proof -
  have 1: "postRequest (demo_env [HTTPError 401 ''Unauthorized''] [] 1000) AUTH_REQ
             [(''applicationId'', PStr ''app'')]
             (PDict [(KStr ''username'', PStr ''user''), (KStr ''password'', PStr ''pw'')]) world0
           = (Inr PNone,
              world0\<lparr>sent := [auth_request (PStr ''app'') ''{}''],
                     logged := [(401, ''Unauthorized'')]\<rparr>)"
    by (simp add: postRequest_def demo_env_def script_def world0_def auth_request_def)
  have 2: "\<not> truthy PNone"
    by simp
  show ?thesis
    by (rule Glow_rejected [OF 1 2])
qed

text \<open>
  Claim C6. When the listing request is answered with a list of descriptors,
  \<open>getResources\<close> returns that list unchanged and leaves as electricity identifier the
  \<open>resourceId\<close> of the last descriptor whose classifier is exactly
  \<open>electricity.consumption\<close>, as gas identifier that of the last one whose classifier is
  exactly \<open>gas.consumption\<close> (\<open>with_ids\<close>); descriptors with another classifier change
  nothing. The token is read first, which gives the object \<open>s1\<close> the listing starts
  from.
\<close>

theorem getResources_records:
  assumes "u_appId s = Some a"
    and "accessToken n E (s, w) = (Inr tok, s1, w1)"
    and "answer E (length (sent w1))
           (get_request RESOURCE_REQ [(''applicationId'', a), (''token'', tok)]) = Some (PList ds)"
    and "list_all is_descriptor ds"
  shows "getResources (Suc n) E (s, w) =
           (Inr (PList ds), with_ids ds s1,
            w1\<lparr>sent := sent w1 @
               [get_request RESOURCE_REQ [(''applicationId'', a), (''token'', tok)]]\<rparr>)"
  using assms by (rule getResources_listing)

theorem getResources_records_witness:
  "getResources (Suc (Suc 0)) (demo_env [json_body ''resources''] demo_bodies 1000)
     (bare_session 2000, world0) =
   (Inr (PList [PDict [(KStr ''classifier'', PStr ''electricity.consumption''),
                       (KStr ''resourceId'', PStr ''E1'')],
                PDict [(KStr ''classifier'', PStr ''gas.consumption''),
                       (KStr ''resourceId'', PStr ''G1'')],
                PDict [(KStr ''classifier'', PStr ''electricity.consumption.cost''),
                       (KStr ''resourceId'', PStr ''E2'')]]),
    (bare_session 2000)\<lparr>elecConsumptionId := Some (PStr ''E1''),
                         gasConsumptionId := Some (PStr ''G1'')\<rparr>,
    world0\<lparr>sent := [get_request RESOURCE_REQ
                       [(''applicationId'', PStr ''app''), (''token'', PStr ''tok0'')]],
           ticks := 1\<rparr>)"
proof -
  let ?E = "demo_env [json_body ''resources''] demo_bodies 1000"
  let ?ds = "[PDict [(KStr ''classifier'', PStr ''electricity.consumption''),
                       (KStr ''resourceId'', PStr ''E1'')],
                PDict [(KStr ''classifier'', PStr ''gas.consumption''),
                       (KStr ''resourceId'', PStr ''G1'')],
                PDict [(KStr ''classifier'', PStr ''electricity.consumption.cost''),
                       (KStr ''resourceId'', PStr ''E2'')]]"
  have 1: "u_appId (bare_session 2000) = Some (PStr ''app'')"
    by (simp add: bare_session_def demo_session_def)
  have 2: "accessToken (Suc 0) ?E (bare_session 2000, world0) =
             (Inr (PStr ''tok0''), bare_session 2000, world0\<lparr>ticks := Suc (ticks world0)\<rparr>)"
    by (rule accessToken_fresh)
       (simp_all add: unexpired_def bare_session_def demo_session_def demo_env_def)
  have 3: "answer ?E (length (sent (world0\<lparr>ticks := Suc (ticks world0)\<rparr>)))
             (get_request RESOURCE_REQ [(''applicationId'', PStr ''app''), (''token'', PStr ''tok0'')])
           = Some (PList ?ds)"
    by (simp add: answer_def demo_env_def script_def json_body_def world0_def demo_bodies_def)
  have 4: "list_all is_descriptor ?ds"
    by (simp add: is_descriptor_def)
  have 5: "with_ids ?ds (bare_session 2000) =
             (bare_session 2000)\<lparr>elecConsumptionId := Some (PStr ''E1''),
                                  gasConsumptionId := Some (PStr ''G1'')\<rparr>"
    by (simp add: with_ids_def last_resource_def)
  show ?thesis
    using getResources_records [OF 1 2 3 4] 5 by (simp add: world0_def)
qed

text \<open>
  Claim C2 as stated (every read of an expired token sends exactly one authentication
  request and returns the new token) fails. When the authentication request is refused
  with HTTP 401, \<open>postRequest\<close> returns \<^verbatim>\<open>None\<close> and \<^verbatim>\<open>resp['token']\<close> raises
  \<^verbatim>\<open>TypeError\<close>: no token is returned and the expiry is as before. And when the
  response carries an expiry that has passed as well, the listing that follows reads
  the token again and authenticates a second time: two authentication requests are
  sent.
\<close>

theorem accessToken_renewal_counterexample:
  "accessToken (Suc (Suc (Suc 0))) (demo_env [HTTPError 401 ''Unauthorized''] [] 1000)
     (demo_session 500, world0) =
   (Inl TypeError, demo_session 500,
    world0\<lparr>sent := [auth_request (PStr ''app'') ''{}''],
           logged := [(401, ''Unauthorized'')], ticks := 1\<rparr>)
   \<and> map url (sent (snd (snd (accessToken (Suc (Suc (Suc (Suc (Suc 0)))))
         (demo_env [json_body ''stale'', json_body ''auth'', json_body ''resources'',
                    json_body ''resources''] demo_bodies 1000)
         (demo_session 500, world0))))) =
       [AUTH_REQ, AUTH_REQ, RESOURCE_REQ, RESOURCE_REQ]"
  by (simp add: run_simps)

text \<open>
  Claim C2, amended. In a session whose stored expiry is at most the current time, when
  the authentication request (stored application identifier, stored username and
  password) is answered with an object that has the five fields and an expiry greater
  than the clock at its next reading, and the listing that follows is answered with a
  list of descriptors, then reading the access token sends exactly these two requests,
  stores the five fields of the response (and the identifiers of the listing) and
  returns the new token; with a clock that does not run backwards the new expiry is
  greater than the old one.
\<close>

theorem accessToken_renewed:
  assumes "u_appId s = Some a" and "u_username s = Some u" and "u_password s = Some p"
    and "expiration s = Some e" and "num_value e = Some x" and "x \<le> time E (ticks w)"
    and "json_dumps E (credentials u p) = Some b"
    and "answer E (length (sent w)) (auth_request a b) = Some resp"
    and "getitem resp (KStr ''token'') = Inr tok'"
    and "getitem resp (KStr ''accountId'') = Inr acc'"
    and "getitem resp (KStr ''exp'') = Inr e'"
    and "getitem resp (KStr ''functionalGroupAccounts'') = Inr fga'"
    and "getitem resp (KStr ''userGroups'') = Inr ug'"
    and "num_value e' = Some x'" and "time E (Suc (ticks w)) < x'"
    and "time E (ticks w) \<le> time E (Suc (ticks w))"
    and "answer E (Suc (length (sent w)))
           (get_request RESOURCE_REQ [(''applicationId'', a), (''token'', tok')]) = Some (PList ds)"
    and "list_all is_descriptor ds"
  shows "accessToken (Suc (Suc (Suc n))) E (s, w) =
           (Inr tok',
            with_ids ds
              (s\<lparr>u_accessToken := Some tok', accountId := Some acc', expiration := Some e',
                 functionalGroupAccounts := Some fga', userGroups := Some ug'\<rparr>),
            w\<lparr>sent := sent w @
                 [auth_request a b,
                  get_request RESOURCE_REQ [(''applicationId'', a), (''token'', tok')]],
              ticks := Suc (Suc (ticks w))\<rparr>)
         \<and> x < x'"
proof -
  define s1 where "s1 = s\<lparr>u_accessToken := Some tok', accountId := Some acc',
    expiration := Some e', functionalGroupAccounts := Some fga', userGroups := Some ug'\<rparr>"
  define w0 where "w0 = w\<lparr>ticks := Suc (ticks w)\<rparr>"
  define w1 where "w1 = w0\<lparr>sent := sent w0 @ [auth_request a b]\<rparr>"
  have auth: "postRequest E AUTH_REQ [(''applicationId'', a)]
                (PDict [(KStr ''username'', u), (KStr ''password'', p)]) w0 = (Inr resp, w1)"
    using postRequest_answer_body [of "credentials u p" E b w0 AUTH_REQ "[(''applicationId'', a)]" resp]
      assms(7,8)
    by (simp add: credentials_def auth_request_def w0_def w1_def)
  have "unexpired E s1 (ticks w1)"
    using assms(14,15) by (simp add: unexpired_def s1_def w1_def w0_def)
  moreover have "u_accessToken s1 = Some tok'"
    by (simp add: s1_def)
  ultimately have tok: "accessToken (Suc n) E (s1, w1) = (Inr tok', s1, w1\<lparr>ticks := Suc (ticks w1)\<rparr>)"
    by (rule accessToken_fresh)
  have "u_appId s1 = Some a"
    using assms(1) by (simp add: s1_def)
  moreover have "answer E (length (sent (w1\<lparr>ticks := Suc (ticks w1)\<rparr>)))
      (get_request RESOURCE_REQ [(''applicationId'', a), (''token'', tok')]) = Some (PList ds)"
    using assms(17) by (simp add: w1_def w0_def)
  ultimately have listing: "getResources (Suc (Suc n)) E (s1, w1) =
      (Inr (PList ds), with_ids ds s1,
       (w1\<lparr>ticks := Suc (ticks w1)\<rparr>)\<lparr>sent := sent (w1\<lparr>ticks := Suc (ticks w1)\<rparr>) @
          [get_request RESOURCE_REQ [(''applicationId'', a), (''token'', tok')]]\<rparr>)"
    using tok assms(18) getResources_listing by blast
  have expired: "py_le e (PFloat (time E (ticks w))) = Inr True"
    using assms(5,6) by (simp add: py_le_def)
  have tok_after: "u_accessToken (with_ids ds s1) = Some tok'"
    by (simp add: with_ids_def s1_def)
  have "accessToken (Suc (Suc (Suc n))) E (s, w) =
          (Inr tok', with_ids ds s1,
           (w1\<lparr>ticks := Suc (ticks w1)\<rparr>)\<lparr>sent := sent (w1\<lparr>ticks := Suc (ticks w1)\<rparr>) @
              [get_request RESOURCE_REQ [(''applicationId'', a), (''token'', tok')]]\<rparr>)"
    using assms(1-4,9-13) expired auth listing tok_after
    by (simp add: accessToken.simps(2) [of "Suc (Suc n)"] bind_def attr_def time_time_def
          lift_def in_world_def assign_def return_def w0_def [symmetric] s1_def [symmetric])
  moreover have "x < x'"
    using assms(6,15,16) by linarith
  ultimately show ?thesis
    by (simp add: s1_def w1_def w0_def)
qed

theorem accessToken_renewed_witness:
  "accessToken (Suc (Suc (Suc 0)))
     (demo_env [json_body ''auth'', json_body ''resources''] demo_bodies 1000)
     (demo_session 500, world0) =
   (Inr (PStr ''tok1''),
    (demo_session 500)\<lparr>u_accessToken := Some (PStr ''tok1''), accountId := Some (PStr ''acc1''),
       expiration := Some (PInt 5000), elecConsumptionId := Some (PStr ''E1''),
       gasConsumptionId := Some (PStr ''G1'')\<rparr>,
    world0\<lparr>sent := [auth_request (PStr ''app'') ''{}'',
                     get_request RESOURCE_REQ
                       [(''applicationId'', PStr ''app''), (''token'', PStr ''tok1'')]],
           ticks := 2\<rparr>)
   \<and> (500 :: rat) < 5000"
proof -
  let ?E = "demo_env [json_body ''auth'', json_body ''resources''] demo_bodies 1000"
  let ?s = "demo_session 500"
  let ?resp = "PDict [(KStr ''token'', PStr ''tok1''), (KStr ''accountId'', PStr ''acc1''),
                (KStr ''exp'', PInt 5000), (KStr ''functionalGroupAccounts'', PList []),
                (KStr ''userGroups'', PList [])]"
  let ?ds = "[PDict [(KStr ''classifier'', PStr ''electricity.consumption''),
                       (KStr ''resourceId'', PStr ''E1'')],
                PDict [(KStr ''classifier'', PStr ''gas.consumption''),
                       (KStr ''resourceId'', PStr ''G1'')],
                PDict [(KStr ''classifier'', PStr ''electricity.consumption.cost''),
                       (KStr ''resourceId'', PStr ''E2'')]]"
  have 1: "u_appId ?s = Some (PStr ''app'')" and 2: "u_username ?s = Some (PStr ''user'')"
    and 3: "u_password ?s = Some (PStr ''pw'')" and 4: "expiration ?s = Some (PInt 500)"
    by (simp_all add: demo_session_def)
  have 5: "num_value (PInt 500) = Some 500"
    by simp
  have 6: "500 \<le> time ?E (ticks world0)"
    by (simp add: demo_env_def)
  have 7: "json_dumps ?E (credentials (PStr ''user'') (PStr ''pw'')) = Some ''{}''"
    by (simp add: demo_env_def)
  have 8: "answer ?E (length (sent world0)) (auth_request (PStr ''app'') ''{}'') = Some ?resp"
    by (simp add: answer_def demo_env_def script_def json_body_def world0_def demo_bodies_def)
  have 9: "getitem ?resp (KStr ''token'') = Inr (PStr ''tok1'')"
    and 10: "getitem ?resp (KStr ''accountId'') = Inr (PStr ''acc1'')"
    and 11: "getitem ?resp (KStr ''exp'') = Inr (PInt 5000)"
    and 12: "getitem ?resp (KStr ''functionalGroupAccounts'') = Inr (PList [])"
    and 13: "getitem ?resp (KStr ''userGroups'') = Inr (PList [])"
    by simp_all
  have 14: "num_value (PInt 5000) = Some 5000"
    by simp
  have 15: "time ?E (Suc (ticks world0)) < 5000"
    and 16: "time ?E (ticks world0) \<le> time ?E (Suc (ticks world0))"
    by (simp_all add: demo_env_def)
  have 17: "answer ?E (Suc (length (sent world0)))
              (get_request RESOURCE_REQ [(''applicationId'', PStr ''app''), (''token'', PStr ''tok1'')])
            = Some (PList ?ds)"
    by (simp add: answer_def demo_env_def script_def json_body_def world0_def demo_bodies_def)
  have 18: "list_all is_descriptor ?ds"
    by (simp add: is_descriptor_def)
  have ids: "with_ids ?ds
      (?s\<lparr>u_accessToken := Some (PStr ''tok1''), accountId := Some (PStr ''acc1''),
          expiration := Some (PInt 5000), functionalGroupAccounts := Some (PList []),
          userGroups := Some (PList [])\<rparr>) =
      ?s\<lparr>u_accessToken := Some (PStr ''tok1''), accountId := Some (PStr ''acc1''),
         expiration := Some (PInt 5000), elecConsumptionId := Some (PStr ''E1''),
         gasConsumptionId := Some (PStr ''G1'')\<rparr>"
    by (simp add: with_ids_def last_resource_def demo_session_def)
  show ?thesis
    using accessToken_renewed [OF 1 2 3 4 5 6 7 8 9 10 11 12 13 14 15 16 17 18, of 0] ids
    by (simp add: world0_def)
qed

section \<open>Properties of the gas accessors\<close>

text \<open>
  Claim C7. With a token that has not expired, \<open>getGasCurrent\<close> sends three requests:
  the reading \<open>r1\<close> over the window from 30 minutes before the local time to the local
  time, with period \<open>PT30M\<close>, offset 0 and function \<open>sum\<close> (\<open>window_params\<close>), the
  current resource \<open>r2\<close> and the tariff \<open>r3\<close>. It returns the current-resource answer
  with its first data point replaced by the first data point of the reading, \<open>rate\<close>
  taken from plan detail 0, \<open>standing\<close> from plan detail 1, and \<open>cost\<close> equal to
  \<open>toCost\<close> of the rate, the value of that first data point and the units. With the
  current point \<open>[T0, 5]\<close> and the window point \<open>[T1, 7]\<close> the first data point of the
  result is \<open>[T1, 7]\<close>.
\<close>

theorem getGasCurrent_window:
  assumes "u_appId s = Some a" and "u_accessToken s = Some tok"
    and "gasConsumptionId s = Some (PStr g)"
    and "unexpired E s (Suc (ticks w))" and "unexpired E s (Suc (Suc (ticks w)))"
    and "unexpired E s (Suc (Suc (Suc (ticks w))))"
    and "r1 = get_request
                (resource_url g (''/readings?'' @ urlencode E (window_params E (today E (ticks w)))))
                (resource_headers a tok)"
    and "r2 = get_request (resource_url g ''/current'') (resource_headers a tok)"
    and "r3 = get_request (resource_url g ''/tariff'') (resource_headers a tok)"
    and "answer E (length (sent w)) r1 = Some gu"
    and "answer E (Suc (length (sent w))) r2 = Some (PDict c)"
    and "answer E (Suc (Suc (length (sent w)))) r3 = Some t"
    and "getpath gu [KStr ''data'', KInt 0] = Inr point"
    and "getitem point (KInt 1) = Inr v"
    and "map_of c (KStr ''data'') = Some (PList (p0 # points))"
    and "map_of c (KStr ''units'') = Some un"
    and "getpath t [KStr ''data'', KInt 0, KStr ''plan'', KInt 0, KStr ''planDetail''] = Inr detail"
    and "getpath detail [KInt 0, KStr ''rate''] = Inr rate"
    and "getpath detail [KInt 1, KStr ''standing''] = Inr standing"
  shows "getGasCurrent (Suc n) E (s, w) =
           (Inr (PDict (dict_set (KStr ''cost'') (toCost rate v un)
                   (dict_set (KStr ''standing'') standing
                      (dict_set (KStr ''rate'') rate
                         (dict_set (KStr ''data'') (PList (point # points)) c))))),
            s,
            w\<lparr>sent := sent w @ [r1, r2, r3], ticks := Suc (Suc (Suc (Suc (ticks w))))\<rparr>)"
proof -
  define w1 where "w1 = w\<lparr>ticks := Suc (ticks w)\<rparr>"
  define w2 where "w2 = w1\<lparr>sent := sent w1 @ [r1], ticks := Suc (ticks w1)\<rparr>"
  define w3 where "w3 = w2\<lparr>sent := sent w2 @ [r2], ticks := Suc (ticks w2)\<rparr>"
  define w4 where "w4 = w3\<lparr>sent := sent w3 @ [r3], ticks := Suc (ticks w3)\<rparr>"
  define c' where "c' = dict_set (KStr ''data'') (PList (point # points)) c"
  have reading: "getReading (Suc n) E (PStr g)
      (PStr (strftime E (today E (ticks w) - timedelta_minutes 30)))
      (PStr (strftime E (today E (ticks w)))) (PStr ''PT30M'') (PInt 0) (PStr ''sum'') (s, w1)
      = (Inr gu, s, w2)"
    unfolding w2_def assms(7) using assms(1,2)
  proof (rule getReading_fresh)
    show "unexpired E s (ticks w1)"
      using assms(4) by (simp add: w1_def)
    show "window_params E (today E (ticks w)) =
            [(''from'', PStr (strftime E (today E (ticks w) - timedelta_minutes 30))),
             (''to'', PStr (strftime E (today E (ticks w)))),
             (''period'', PStr ''PT30M''), (''offset'', PInt 0), (''function'', PStr ''sum'')]"
      by (simp add: window_params_def)
    show "answer E (length (sent w1))
            (get_request
               (resource_url g (''/readings?'' @ urlencode E (window_params E (today E (ticks w)))))
               (resource_headers a tok)) = Some gu"
      using assms(10) by (simp add: w1_def assms(7))
  qed
  have current: "getCurResource (Suc n) E (PStr g) (s, w2) = (Inr (PDict c), s, w3)"
    unfolding w3_def assms(8) using assms(1,2)
  proof (rule getCurResource_fresh)
    show "unexpired E s (ticks w2)"
      using assms(5) by (simp add: w2_def w1_def)
    show "answer E (length (sent w2))
            (get_request (resource_url g ''/current'') (resource_headers a tok)) = Some (PDict c)"
      using assms(11) by (simp add: w2_def w1_def assms(8))
  qed
  have tariff: "getGasTariff (Suc n) E (s, w3) = (Inr t, s, w4)"
    unfolding w4_def assms(9) using assms(1,2)
  proof (rule getGasTariff_fresh)
    show "unexpired E s (ticks w3)"
      using assms(6) by (simp add: w3_def w2_def w1_def)
    show "gasConsumptionId s = Some (PStr g)"
      by (fact assms(3))
    show "answer E (length (sent w3))
            (get_request (resource_url g ''/tariff'') (resource_headers a tok)) = Some t"
      using assms(12) by (simp add: w3_def w2_def w1_def assms(9))
  qed
  have subst: "setitem2 (PDict c) (KStr ''data'') (KInt 0) point = Inr (PDict c')"
    using assms(15) by (simp add: setitem2_def py_index_0 c'_def)
  have cost: "add_cost (PDict c') t =
      Inr (PDict (dict_set (KStr ''cost'') (toCost rate v un)
             (dict_set (KStr ''standing'') standing (dict_set (KStr ''rate'') rate c'))))"
  proof (rule add_cost_shape)
    show "map_of c' (KStr ''data'') = Some (PList (point # points))"
      by (simp add: c'_def map_of_dict_set)
    show "map_of c' (KStr ''units'') = Some un"
      using assms(16) by (simp add: c'_def map_of_dict_set)
  qed (fact assms(14) assms(17) assms(18) assms(19))+
  have "getGasCurrent (Suc n) E (s, w) =
          (Inr (PDict (dict_set (KStr ''cost'') (toCost rate v un)
                  (dict_set (KStr ''standing'') standing (dict_set (KStr ''rate'') rate c')))),
           s, w4)"
    using assms(3,13) reading current tariff subst cost
    by (simp add: getGasCurrent_def bind_def attr_def lift_def datetime_today_def
          w1_def [symmetric])
  then show ?thesis
    by (simp add: w4_def w3_def w2_def w1_def c'_def)
qed

theorem getGasCurrent_window_witness:
  "getGasCurrent (Suc 0)
     (demo_env [json_body ''window'', json_body ''current'', json_body ''tariff''] demo_bodies 1000)
     (demo_session 2000, world0) =
   (Inr (PDict [(KStr ''data'', PList [PList [PStr ''T1'', PInt 7]]),
                (KStr ''units'', PStr ''kWh''), (KStr ''rate'', PFloat (15 / 100)),
                (KStr ''standing'', PInt 25),
                (KStr ''cost'', toCost (PFloat (15 / 100)) (PInt 7) (PStr ''kWh''))]),
    demo_session 2000,
    world0\<lparr>sent :=
       [get_request (RESOURCE_REQ @ ''/G0/readings?from=2021-03-01T10%3A00%3A00''
                       @ ''&to=2021-03-01T10%3A30%3A00&period=PT30M&offset=0&function=sum'')
          (resource_headers (PStr ''app'') (PStr ''tok0'')),
        get_request (resource_url ''G0'' ''/current'')
          (resource_headers (PStr ''app'') (PStr ''tok0'')),
        get_request (resource_url ''G0'' ''/tariff'')
          (resource_headers (PStr ''app'') (PStr ''tok0''))],
       ticks := 4\<rparr>)"
proof -
  let ?E = "demo_env [json_body ''window'', json_body ''current'', json_body ''tariff'']
              demo_bodies 1000"
  let ?s = "demo_session 2000"
  let ?h = "resource_headers (PStr ''app'') (PStr ''tok0'')"
  let ?r1 = "get_request
               (resource_url ''G0''
                  (''/readings?'' @ urlencode ?E (window_params ?E (today ?E (ticks world0))))) ?h"
  let ?r2 = "get_request (resource_url ''G0'' ''/current'') ?h"
  let ?r3 = "get_request (resource_url ''G0'' ''/tariff'') ?h"
  let ?gu = "PDict [(KStr ''data'', PList [PList [PStr ''T1'', PInt 7]])]"
  let ?c = "[(KStr ''data'', PList [PList [PStr ''T0'', PInt 5]]), (KStr ''units'', PStr ''kWh'')]"
  let ?detail = "PList [PDict [(KStr ''rate'', PFloat (15 / 100))],
                        PDict [(KStr ''standing'', PInt 25)]]"
  let ?t = "PDict [(KStr ''data'',
              PList [PDict [(KStr ''plan'', PList [PDict [(KStr ''planDetail'', ?detail)]])]])]"
  have 1: "u_appId ?s = Some (PStr ''app'')" and 2: "u_accessToken ?s = Some (PStr ''tok0'')"
    and 3: "gasConsumptionId ?s = Some (PStr ''G0'')"
    by (simp_all add: demo_session_def)
  have 4: "unexpired ?E ?s (Suc (ticks world0))"
    and 5: "unexpired ?E ?s (Suc (Suc (ticks world0)))"
    and 6: "unexpired ?E ?s (Suc (Suc (Suc (ticks world0))))"
    by (simp_all add: unexpired_def demo_session_def demo_env_def)
  have 10: "answer ?E (length (sent world0)) ?r1 = Some ?gu"
    by (simp add: answer_def demo_env_def script_def json_body_def world0_def demo_bodies_def)
  have 11: "answer ?E (Suc (length (sent world0))) ?r2 = Some (PDict ?c)"
    by (simp add: answer_def demo_env_def script_def json_body_def world0_def demo_bodies_def)
  have 12: "answer ?E (Suc (Suc (length (sent world0)))) ?r3 = Some ?t"
    by (simp add: answer_def demo_env_def script_def json_body_def world0_def demo_bodies_def)
  have 13: "getpath ?gu [KStr ''data'', KInt 0] = Inr (PList [PStr ''T1'', PInt 7])"
    and 14: "getitem (PList [PStr ''T1'', PInt 7]) (KInt 1) = Inr (PInt 7)"
    by (simp_all add: py_index_def)
  have 15: "map_of ?c (KStr ''data'') = Some (PList (PList [PStr ''T0'', PInt 5] # []))"
    and 16: "map_of ?c (KStr ''units'') = Some (PStr ''kWh'')"
    by simp_all
  have 17: "getpath ?t [KStr ''data'', KInt 0, KStr ''plan'', KInt 0, KStr ''planDetail'']
              = Inr ?detail"
    and 18: "getpath ?detail [KInt 0, KStr ''rate''] = Inr (PFloat (15 / 100))"
    and 19: "getpath ?detail [KInt 1, KStr ''standing''] = Inr (PInt 25)"
    by (simp_all add: py_index_def)
  have url: "resource_url ''G0''
               (''/readings?'' @ urlencode ?E (window_params ?E (today ?E (ticks world0)))) =
             RESOURCE_REQ @ ''/G0/readings?from=2021-03-01T10%3A00%3A00''
               @ ''&to=2021-03-01T10%3A30%3A00&period=PT30M&offset=0&function=sum''"
    by (simp add: resource_url_def demo_env_def window_params_def timedelta_minutes_def
          demo_strftime_def quote_plus_def unreserved_def hex_digit_def)
  show ?thesis
    using getGasCurrent_window [OF 1 2 3 4 5 6 refl refl refl 10 11 12 13 14 15 16 17 18 19,
        of 0, unfolded url]
    by (simp add: world0_def)
qed



section \<open>The resource identifiers have no default\<close>



end
